theory Spec2Isabelle
  imports Complex_Main
begin

section \<open>Errors raised by the Python sources\<close>

text \<open>
  Every \<^verbatim>\<open>raise\<close> and every failing \<^verbatim>\<open>assert\<close> of the modelled functions is a value of
  this type; a function that can raise returns \<open>error + 'a\<close> with \<open>Inl\<close> for the exception.
  \<open>TensorforceError_value name argument value hint\<close> is \<^verbatim>\<open>TensorforceError.value(...)\<close>.
\<close>

datatype error =
    AssertionError
  | AttributeError
  | KeyError
  | TypeError
  | ValueError
  | RuntimeError
  | NotImplementedError
  | ArithmeticError
  | FloatingPointError
  | OverflowError
  | ZeroDivisionError
  | InvalidArgumentError
  | TensorforceError_value string string string string

text \<open>
  Python's exception classes form a tree: \<^verbatim>\<open>NotImplementedError\<close> derives from
  \<^verbatim>\<open>RuntimeError\<close>, the three numeric errors from \<^verbatim>\<open>ArithmeticError\<close>, and every other
  class above directly from \<^verbatim>\<open>Exception\<close> (\<^verbatim>\<open>InvalidArgumentError\<close> is TensorFlow's
  error of a failed tensor operation). \<open>caught_by e h\<close> says that a handler
  \<^verbatim>\<open>except h\<close> catches the exception \<open>e\<close>: the class of \<open>e\<close> is \<open>h\<close> or derives from it.
\<close>

fun base_class :: "error \<Rightarrow> error option" where
  "base_class NotImplementedError = Some RuntimeError"
| "base_class FloatingPointError = Some ArithmeticError"
| "base_class OverflowError = Some ArithmeticError"
| "base_class ZeroDivisionError = Some ArithmeticError"
| "base_class _ = None"

definition caught_by :: "error \<Rightarrow> error \<Rightarrow> bool" where
  "caught_by e h = (e = h \<or> base_class e = Some h)"

section \<open>Python values of a specification\<close>

text \<open>
  Specifications are Python dictionaries of strings, numbers, booleans, \<^verbatim>\<open>None\<close> and
  nested dictionaries. A dictionary is the list of its items in insertion order. A float
  literal such as \<^verbatim>\<open>1e-3\<close> is the real number it denotes.
\<close>

datatype pyval =
    PNone
  | PBool bool
  | PInt int
  | PFloat real
  | PStr string
  | PDict "(string \<times> pyval) list"

section \<open>Plus optimizer (core/optimizers/plus.py)\<close>

text \<open>
  A sub-optimizer's \<^verbatim>\<open>step(arguments, **kwargs)\<close> is a function of the arguments bundle
  and of the variable state it reads and may change; it returns its deltas, one tensor per
  variable, and the state it leaves. The tensor type is any type with an addition
  (TensorFlow's \<^verbatim>\<open>+\<close> on two tensors of one shape).

  \<^verbatim>\<open>
  def step(self, arguments, **kwargs):
      deltas1 = self.optimizer1.step(arguments=arguments, **kwargs)
      with tf.control_dependencies(control_inputs=deltas1):
          deltas2 = self.optimizer2.step(arguments=arguments, **kwargs)
      with tf.control_dependencies(control_inputs=deltas2):
          return [delta1 + delta2 for delta1, delta2 in zip(deltas1, deltas2)]
  \<close>
\<close>

type_synonym ('args, 'st, 't) optimizer_step = "'args \<Rightarrow> 'st \<Rightarrow> 't list \<times> 'st"

definition Plus_step ::
  "('args, 'st, 't::plus) optimizer_step \<Rightarrow> ('args, 'st, 't) optimizer_step \<Rightarrow>
   ('args, 'st, 't) optimizer_step" where
  "Plus_step optimizer1 optimizer2 arguments s =
     (case optimizer1 arguments s of (deltas1, s1) \<Rightarrow>
      case optimizer2 arguments s1 of (deltas2, s2) \<Rightarrow>
        (map (\<lambda>(delta1, delta2). delta1 + delta2) (zip deltas1 deltas2), s2))"

section \<open>Model (models/model.py)\<close>

subsection \<open>Discounted cumulative reward\<close>

text \<open>
  \<^verbatim>\<open>tf.scan(fn, elems, initializer)\<close> folds from the left and returns every intermediate
  accumulator: \<open>a\<^sub>0 = fn initializer e\<^sub>0\<close>, \<open>a\<^sub>k = fn a\<^sub>k\<^sub>-\<^sub>1 e\<^sub>k\<close>.
\<close>

fun tf_scan :: "('b \<Rightarrow> 'a \<Rightarrow> 'b) \<Rightarrow> 'a list \<Rightarrow> 'b \<Rightarrow> 'b list" where
  "tf_scan fn [] initializer = []"
| "tf_scan fn (e # elems) initializer = (let a = fn initializer e in a # tf_scan fn elems a)"

text \<open>
  \<^verbatim>\<open>
  def fn_scan(cumulative, reward_and_terminal):
      reward_, terminal_ = reward_and_terminal
      return tf.cond(pred=terminal_, true_fn=(lambda: reward_),
                     false_fn=(lambda: reward_ + cumulative * discount))
  \<close>
  The reward type is any type with \<open>+\<close> and \<open>*\<close>: no law of arithmetic is built into the
  definition.
\<close>

definition fn_scan :: "'a::{plus,times} \<Rightarrow> 'a \<Rightarrow> 'a \<times> bool \<Rightarrow> 'a" where
  "fn_scan discount cumulative reward_and_terminal =
     (case reward_and_terminal of (reward', terminal') \<Rightarrow>
        if terminal' then reward' else reward' + cumulative * discount)"

text \<open>
  \<^verbatim>\<open>
  reward = tf.reverse(tensor=reward, axis=(0,))
  terminal = tf.reverse(tensor=terminal, axis=(0,))
  reward = tf.scan(fn=fn_scan, elems=(reward, terminal), initializer=final_reward)
  return tf.reverse(tensor=reward, axis=(0,))
  \<close>
  \<^verbatim>\<open>tf.scan\<close> over a pair of tensors needs the same length along axis 0 and fails
  otherwise.
\<close>

definition tf_discounted_cumulative_reward ::
  "'a::{plus,times} list \<Rightarrow> bool list \<Rightarrow> 'a \<Rightarrow> 'a \<Rightarrow> error + 'a list" where
  "tf_discounted_cumulative_reward reward terminal discount final_reward =
     (if length reward \<noteq> length terminal then Inl InvalidArgumentError
      else Inr (rev (tf_scan (fn_scan discount) (zip (rev reward) (rev terminal)) final_reward)))"

text \<open>
  The recurrence the documentation of the function describes, read from the end of the
  sequence: each entry is computed from the entry after it, the seed standing after the
  last one.
\<close>

fun backward_return :: "('b \<Rightarrow> 'a \<Rightarrow> 'b) \<Rightarrow> 'a list \<Rightarrow> 'b \<Rightarrow> 'b list" where
  "backward_return fn [] seed = []"
| "backward_return fn (e # elems) seed =
     (let rest = backward_return fn elems seed
      in fn (case rest of [] \<Rightarrow> seed | y # _ \<Rightarrow> y) e # rest)"

subsection \<open>Loss and reward preprocessing\<close>

text \<open>
  Losses and rewards are tensors of rank one over the batch, with real numbers for the
  floats. \<^verbatim>\<open>tf.reduce_mean\<close> of an empty tensor is not a number: \<open>None\<close>.
  \<^verbatim>\<open>tf.add_n\<close> adds the tensors of a list.
\<close>

definition reduce_mean :: "real list \<Rightarrow> real option" where
  "reduce_mean x = (if x = [] then None else Some (sum_list x / real (length x)))"

definition add_n :: "real list \<Rightarrow> real" where
  "add_n inputs = sum_list inputs"

text \<open>
  \<^verbatim>\<open>
  def tf_loss(self, states, internals, actions, terminal, reward):
      loss_per_instance = self.fn_loss_per_instance(states=states, internals=internals,
          actions=actions, terminal=terminal, reward=reward)
      loss = tf.reduce_mean(input_tensor=loss_per_instance, axis=0)
      losses = self.fn_regularization_losses(states=states, internals=internals)
      if len(losses) > 0:
          loss += tf.add_n(inputs=list(losses.values()))
      return loss
  \<close>
  The two functions are abstract in the base class (a subclass defines them) and are
  parameters here; the regularization losses are a dictionary from names to scalars.
\<close>

definition tf_loss ::
  "('s \<Rightarrow> 'n \<Rightarrow> 'a \<Rightarrow> bool list \<Rightarrow> real list \<Rightarrow> real list) \<Rightarrow>
   ('s \<Rightarrow> 'n \<Rightarrow> (string \<times> real) list) \<Rightarrow>
   's \<Rightarrow> 'n \<Rightarrow> 'a \<Rightarrow> bool list \<Rightarrow> real list \<Rightarrow> real option" where
  "tf_loss fn_loss_per_instance fn_regularization_losses states internals actions terminal reward =
     (let loss_per_instance = fn_loss_per_instance states internals actions terminal reward;
          loss = reduce_mean loss_per_instance;
          losses = fn_regularization_losses states internals
      in if length losses > 0
         then map_option (\<lambda>l. l + add_n (map snd losses)) loss
         else loss)"

text \<open>
  \<^verbatim>\<open>tf.nn.moments(x, axes=0)\<close> is the mean and the mean squared deviation from it.
  \<^verbatim>\<open>
  def get_reward(self, states, internals, terminal, reward):
      if self.normalize_rewards:
          mean, variance = tf.nn.moments(x=reward, axes=0)
          return (reward - mean) / tf.maximum(x=variance, y=util.epsilon)
      else:
          return tf.identity(input=reward)
  \<close>
  \<^verbatim>\<open>util.epsilon\<close> is a constant of another module and a parameter here. An empty batch has
  no entry to normalize, so the result is empty whatever the moments are.
\<close>

definition moments :: "real list \<Rightarrow> (real \<times> real) option" where
  "moments x =
     (case reduce_mean x of
        None \<Rightarrow> None
      | Some mean \<Rightarrow>
          (case reduce_mean (map (\<lambda>v. (v - mean) * (v - mean)) x) of
             None \<Rightarrow> None
           | Some variance \<Rightarrow> Some (mean, variance)))"

definition get_reward :: "bool \<Rightarrow> real \<Rightarrow> real list \<Rightarrow> real list" where
  "get_reward normalize_rewards epsilon reward =
     (if normalize_rewards then
        (case moments reward of
           None \<Rightarrow> []
         | Some (mean, variance) \<Rightarrow> map (\<lambda>r. (r - mean) / max variance epsilon) reward)
      else reward)"

section \<open>Trust region policy optimization agent (agents/trpo.py)\<close>

text \<open>
  The arguments of \<^verbatim>\<open>TrustRegionPolicyOptimization.__init__\<close>, after Python has filled in
  the defaults. \<open>None\<close> is \<open>PNone\<close>.
\<close>

record trpo_args =
  trpo_states :: pyval
  trpo_actions :: pyval
  trpo_max_episode_timesteps :: int
  trpo_network :: pyval
  trpo_batch_size :: int
  trpo_update_frequency :: pyval
  trpo_learning_rate :: pyval
  trpo_likelihood_ratio_clipping :: pyval
  trpo_discount :: pyval
  trpo_estimate_terminal :: bool
  trpo_critic_network :: pyval
  trpo_critic_optimizer :: pyval
  trpo_preprocessing :: pyval
  trpo_exploration :: pyval
  trpo_variable_noise :: pyval
  trpo_l2_regularization :: pyval
  trpo_entropy_regularization :: pyval
  trpo_name :: pyval
  trpo_device :: pyval
  trpo_parallel_interactions :: pyval
  trpo_seed :: pyval
  trpo_execution :: pyval
  trpo_saver :: pyval
  trpo_summarizer :: pyval

text \<open>The defaults of the signature, for the three required arguments.\<close>

definition trpo_defaults :: "pyval \<Rightarrow> pyval \<Rightarrow> int \<Rightarrow> trpo_args" where
  "trpo_defaults states actions max_episode_timesteps =
     \<lparr> trpo_states = states, trpo_actions = actions,
       trpo_max_episode_timesteps = max_episode_timesteps,
       trpo_network = PStr ''auto'',
       trpo_batch_size = 10, trpo_update_frequency = PNone,
       trpo_learning_rate = PFloat (1 / 1000),
       trpo_likelihood_ratio_clipping = PFloat (2 / 10), trpo_discount = PFloat (99 / 100),
       trpo_estimate_terminal = True,
       trpo_critic_network = PNone, trpo_critic_optimizer = PNone,
       trpo_preprocessing = PNone,
       trpo_exploration = PFloat 0, trpo_variable_noise = PFloat 0,
       trpo_l2_regularization = PFloat 0, trpo_entropy_regularization = PFloat 0,
       trpo_name = PStr ''agent'', trpo_device = PNone, trpo_parallel_interactions = PInt 1,
       trpo_seed = PNone, trpo_execution = PNone, trpo_saver = PNone,
       trpo_summarizer = PNone \<rparr>"

text \<open>
  The keyword arguments that \<^verbatim>\<open>__init__\<close> computes for \<^verbatim>\<open>super().__init__\<close>, in the
  order of the call:
  \<^verbatim>\<open>
  memory = dict(type='recent', capacity=((batch_size + 1) * max_episode_timesteps))
  if update_frequency is None:
      update = dict(unit='episodes', batch_size=batch_size)
  else:
      update = dict(unit='episodes', batch_size=batch_size, frequency=update_frequency)
  optimizer = dict(type='natural_gradient', learning_rate=learning_rate,
                   cg_max_iterations=10, cg_damping=1e-3)
  optimizer = dict(type='optimized_step', optimizer=optimizer, ls_max_iterations=10,
                   ls_accept_ratio=0.9, ls_mode='exponential', ls_parameter=0.5)
  objective = dict(type='policy_gradient', ratio_based=True,
                   clipping_value=likelihood_ratio_clipping)
  if critic_network is None:
      reward_estimation = dict(horizon='episode', discount=discount)
  else:
      reward_estimation = dict(horizon='episode', discount=discount,
          estimate_horizon=('late' if estimate_terminal else False),
          estimate_terminal=estimate_terminal, estimate_advantage=True)
  if critic_network is None:
      baseline_objective = None
  else:
      baseline_objective = 'state_value'
  \<close>
\<close>

definition trpo_kwargs :: "trpo_args \<Rightarrow> (string \<times> pyval) list" where
  "trpo_kwargs a =
     (let memory = PDict [(''type'', PStr ''recent''),
            (''capacity'', PInt ((trpo_batch_size a + 1) * trpo_max_episode_timesteps a))];
          update =
            (if trpo_update_frequency a = PNone
             then PDict [(''unit'', PStr ''episodes''), (''batch_size'', PInt (trpo_batch_size a))]
             else PDict [(''unit'', PStr ''episodes''), (''batch_size'', PInt (trpo_batch_size a)),
                         (''frequency'', trpo_update_frequency a)]);
          optimizer = PDict [(''type'', PStr ''natural_gradient''),
            (''learning_rate'', trpo_learning_rate a),
            (''cg_max_iterations'', PInt 10), (''cg_damping'', PFloat (1 / 1000))];
          optimizer = PDict [(''type'', PStr ''optimized_step''), (''optimizer'', optimizer),
            (''ls_max_iterations'', PInt 10), (''ls_accept_ratio'', PFloat (9 / 10)),
            (''ls_mode'', PStr ''exponential''), (''ls_parameter'', PFloat (5 / 10))];
          objective = PDict [(''type'', PStr ''policy_gradient''), (''ratio_based'', PBool True),
            (''clipping_value'', trpo_likelihood_ratio_clipping a)];
          reward_estimation =
            (if trpo_critic_network a = PNone
             then PDict [(''horizon'', PStr ''episode''), (''discount'', trpo_discount a)]
             else PDict [(''horizon'', PStr ''episode''), (''discount'', trpo_discount a),
                         (''estimate_horizon'',
                            (if trpo_estimate_terminal a then PStr ''late'' else PBool False)),
                         (''estimate_terminal'', PBool (trpo_estimate_terminal a)),
                         (''estimate_advantage'', PBool True)]);
          baseline_objective =
            (if trpo_critic_network a = PNone then PNone else PStr ''state_value'')
      in [(''states'', trpo_states a), (''actions'', trpo_actions a),
          (''max_episode_timesteps'', PInt (trpo_max_episode_timesteps a)),
          (''parallel_interactions'', trpo_parallel_interactions a),
          (''buffer_observe'', PInt (trpo_max_episode_timesteps a)),
          (''seed'', trpo_seed a),
          (''name'', trpo_name a), (''device'', trpo_device a),
          (''execution'', trpo_execution a), (''saver'', trpo_saver a),
          (''summarizer'', trpo_summarizer a), (''preprocessing'', trpo_preprocessing a),
          (''exploration'', trpo_exploration a), (''variable_noise'', trpo_variable_noise a),
          (''l2_regularization'', trpo_l2_regularization a),
          (''policy'', PNone), (''network'', trpo_network a), (''memory'', memory),
          (''update'', update), (''optimizer'', optimizer), (''objective'', objective),
          (''reward_estimation'', reward_estimation), (''baseline_policy'', PNone),
          (''baseline_network'', trpo_critic_network a),
          (''baseline_objective'', baseline_objective),
          (''baseline_optimizer'', trpo_critic_optimizer a),
          (''entropy_regularization'', trpo_entropy_regularization a)])"

text \<open>
  The constructor itself: the one check it makes (\<^verbatim>\<open>assert critic_optimizer is not None\<close>
  when a critic network is given), then the parent's constructor on the keyword arguments.
  \<^verbatim>\<open>PolicyAgent.__init__\<close> belongs to another module and is a parameter.
\<close>

definition trpo_init :: "((string \<times> pyval) list \<Rightarrow> error + 'agent) \<Rightarrow> trpo_args \<Rightarrow> error + 'agent" where
  "trpo_init PolicyAgent_init a =
     (if trpo_critic_network a \<noteq> PNone \<and> trpo_critic_optimizer a = PNone
      then Inl AssertionError
      else PolicyAgent_init (trpo_kwargs a))"

section \<open>Distribution base class (core/distributions/distribution.py)\<close>

text \<open>
  A tensor specification, as far as the sources read it: the declared type (\<^verbatim>\<open>'bool'\<close>,
  \<^verbatim>\<open>'int'\<close> or \<^verbatim>\<open>'float'\<close>), the shape, the optional bounds and the optional number of
  values of an int action.
\<close>

record tensor_spec =
  spec_type :: string
  spec_shape :: "nat list"
  spec_min_value :: "pyval option"
  spec_max_value :: "pyval option"
  spec_num_values :: "nat option"

text \<open>
  \<^verbatim>\<open>
  def __init__(self, summary_labels=None, name=None, action_spec=None, input_spec=None,
               parameters_spec=None):
      assert input_spec.type == 'float'
      super().__init__(summary_labels=summary_labels, l2_regularization=0.0, name=name)
      self.action_spec = action_spec
      self.input_spec = input_spec
      self.parameters_spec = parameters_spec
  \<close>
  \<^verbatim>\<open>Module.__init__\<close> belongs to another module. It is a parameter that receives its three
  arguments and the state \<open>'w\<close> of everything a module's initialization can touch, and
  returns the module (or the error it raises) and the new state. \<open>input_spec\<close> defaults to
  \<^verbatim>\<open>None\<close>, which has no attribute \<^verbatim>\<open>type\<close>.
\<close>

record ('m, 'p) distribution =
  dist_module :: 'm
  dist_action_spec :: "tensor_spec option"
  dist_input_spec :: "tensor_spec option"
  dist_parameters_spec :: 'p

definition Distribution_init ::
  "(pyval \<Rightarrow> pyval \<Rightarrow> pyval \<Rightarrow> 'w \<Rightarrow> (error + 'm) \<times> 'w) \<Rightarrow>
   pyval \<Rightarrow> pyval \<Rightarrow> tensor_spec option \<Rightarrow> tensor_spec option \<Rightarrow> 'p \<Rightarrow> 'w \<Rightarrow>
   (error + ('m, 'p) distribution) \<times> 'w" where
  "Distribution_init Module_init summary_labels name action_spec input_spec parameters_spec w =
     (case input_spec of
        None \<Rightarrow> (Inl AttributeError, w)
      | Some sp \<Rightarrow>
          if spec_type sp \<noteq> ''float'' then (Inl AssertionError, w)
          else (case Module_init summary_labels (PFloat 0) name w of
                  (Inl e, w') \<Rightarrow> (Inl e, w')
                | (Inr m, w') \<Rightarrow>
                    (Inr \<lparr> dist_module = m, dist_action_spec = action_spec,
                           dist_input_spec = input_spec,
                           dist_parameters_spec = parameters_spec \<rparr>, w')))"

text \<open>
  The seven capability methods of the base class; each body is
  \<^verbatim>\<open>raise NotImplementedError\<close>, whatever the arguments.
\<close>

datatype capability =
    Parametrize | Sample | Log_probability | Entropy | Kl_divergence | States_value
  | Action_value

fun Distribution_method :: "capability \<Rightarrow> 'a list \<Rightarrow> error + 'r" where
  "Distribution_method Parametrize x = Inl NotImplementedError"
| "Distribution_method Sample parameters_temperature = Inl NotImplementedError"
| "Distribution_method Log_probability parameters_action = Inl NotImplementedError"
| "Distribution_method Entropy parameters = Inl NotImplementedError"
| "Distribution_method Kl_divergence parameters1_parameters2 = Inl NotImplementedError"
| "Distribution_method States_value parameters = Inl NotImplementedError"
| "Distribution_method Action_value parameters_action = Inl NotImplementedError"

text \<open>
  A variant is a subclass: the methods it defines override the base class's, the others
  are inherited. \<open>overrides c\<close> is the variant's own definition of the capability \<open>c\<close>,
  when it has one; a call goes to it, and to the base class otherwise.
\<close>

definition invoke ::
  "(capability \<Rightarrow> ('a list \<Rightarrow> error + 'r) option) \<Rightarrow> capability \<Rightarrow> 'a list \<Rightarrow> error + 'r" where
  "invoke overrides c args =
     (case overrides c of Some impl \<Rightarrow> impl args | None \<Rightarrow> Distribution_method c args)"

section \<open>Internal state RNN layer (core/layers/internal_rnn.py)\<close>

text \<open>
  \<^verbatim>\<open>
  super().__init__(temporal_processing='iterative', horizon=horizon, size=size, ...)
  self.cell_type = cell
  if self.cell_type == 'gru':
      self.cell = tf.keras.layers.GRUCell(units=self.size, name='cell', **kwargs)
  elif self.cell_type == 'lstm':
      self.cell = tf.keras.layers.LSTMCell(units=self.size, name='cell', **kwargs)
  else:
      raise TensorforceError.value(
          name='Rnn', argument='cell', value=self.cell_type, hint='not in {gru,lstm}')
  \<close>
  The parent classes and Keras lie outside the modelled files: the parent's constructor
  (which sets \<^verbatim>\<open>self.size\<close>), the attribute \<^verbatim>\<open>size\<close> and the two Keras cell
  constructors are parameters, each of which may raise.
\<close>

record ('b, 'c) internal_rnn =
  rnn_base :: 'b
  rnn_cell_type :: string
  rnn_cell :: 'c

definition InternalRnn_init ::
  "('args \<Rightarrow> error + 'b) \<Rightarrow> ('b \<Rightarrow> int) \<Rightarrow>
   (int \<Rightarrow> 'kw \<Rightarrow> error + 'c) \<Rightarrow> (int \<Rightarrow> 'kw \<Rightarrow> error + 'c) \<Rightarrow>
   string \<Rightarrow> 'args \<Rightarrow> 'kw \<Rightarrow> error + ('b, 'c) internal_rnn" where
  "InternalRnn_init super_init size_of GRUCell LSTMCell cell args kwargs =
     (case super_init args of
        Inl e \<Rightarrow> Inl e
      | Inr self \<Rightarrow>
          if cell = ''gru'' then
            (case GRUCell (size_of self) kwargs of
               Inl e \<Rightarrow> Inl e
             | Inr c \<Rightarrow> Inr \<lparr> rnn_base = self, rnn_cell_type = cell, rnn_cell = c \<rparr>)
          else if cell = ''lstm'' then
            (case LSTMCell (size_of self) kwargs of
               Inl e \<Rightarrow> Inl e
             | Inr c \<Rightarrow> Inr \<lparr> rnn_base = self, rnn_cell_type = cell, rnn_cell = c \<rparr>)
          else Inl (TensorforceError_value ''Rnn'' ''cell'' cell ''not in {gru,lstm}''))"


section \<open>Constant model (core/models/constant.py)\<close>



















section \<open>Theorems\<close>

subsection \<open>Plus.step\<close>

lemma length_map2_same:
  "length xs = n \<Longrightarrow> length ys = n \<Longrightarrow> length (map f (zip xs ys)) = n"
  by simp

text \<open>
  C1. When the two sub-optimizers return the deltas \<open>d1\<close> and \<open>d2\<close>, one tensor for each of
  the \<open>n\<close> variables, \<open>Plus.step\<close> returns the list of the \<open>n\<close> sums \<open>d1 ! i + d2 ! i\<close>, in
  the order of the variables.
\<close>

theorem Plus_step_sum:
  assumes "optimizer1 arguments s = (d1, s1)"
    and "optimizer2 arguments s1 = (d2, s2)"
    and "length d1 = n" and "length d2 = n"
  shows "fst (Plus_step optimizer1 optimizer2 arguments s) = map2 (+) d1 d2
       \<and> length (fst (Plus_step optimizer1 optimizer2 arguments s)) = n
       \<and> (\<forall>i < n. fst (Plus_step optimizer1 optimizer2 arguments s) ! i = d1 ! i + d2 ! i)"
proof -
  have r: "fst (Plus_step optimizer1 optimizer2 arguments s) = map2 (+) d1 d2"
    using assms(1,2) by (simp add: Plus_step_def)
  have l: "length (map2 (+) d1 d2) = n"
    using assms(3,4) by (rule length_map2_same)
  have "\<forall>i < n. map2 (+) d1 d2 ! i = d1 ! i + d2 ! i"
    using assms(3,4) by simp
  with r l show ?thesis by simp
qed

theorem Plus_step_sum_witness:
  "fst (Plus_step (\<lambda>a s. ([1, 2, 3 :: int], s + 1)) (\<lambda>a s. ([10 * s, 20, 30], s + 1)) () (0 :: int))
     = [11, 22, 33]"
proof -
  have "fst (Plus_step (\<lambda>a s. ([1, 2, 3 :: int], s + 1)) (\<lambda>a s. ([10 * s, 20, 30], s + 1)) () (0 :: int))
          = map2 (+) [1, 2, 3] [10, 20, 30]"
    using Plus_step_sum [of "\<lambda>a s. ([1, 2, 3 :: int], s + 1)" "()" "0 :: int" "[1, 2, 3]" 1
        "\<lambda>a s. ([10 * s, 20, 30], s + 1)" "[10, 20, 30]" 2 3]
    by simp
  then show ?thesis by simp
qed

subsection \<open>Model.tf_discounted_cumulative_reward\<close>

lemma tf_scan_append:
  "tf_scan fn (xs @ ys) a = tf_scan fn xs a @ tf_scan fn ys (last (a # tf_scan fn xs a))"
  by (induction xs arbitrary: a) (simp_all add: Let_def)

lemma last_Cons_rev: "last (a # ys) = (case rev ys of [] \<Rightarrow> a | y # _ \<Rightarrow> y)"
  by (induction ys rule: rev_induct) simp_all

lemma rev_tf_scan_rev: "rev (tf_scan fn (rev xs) a) = backward_return fn xs a"
proof (induction xs)
  case Nil
  show ?case by simp
next
  case (Cons x xs)
  have "last (a # tf_scan fn (rev xs) a) =
          (case backward_return fn xs a of [] \<Rightarrow> a | y # _ \<Rightarrow> y)"
    using Cons.IH by (simp only: last_Cons_rev)
  then show ?case using Cons.IH by (simp add: tf_scan_append Let_def)
qed

lemma length_backward_return: "length (backward_return fn xs a) = length xs"
  by (induction xs) (simp_all add: Let_def)

lemma backward_return_nth:
  "i < length xs \<Longrightarrow>
   backward_return fn xs a ! i =
     fn (if Suc i < length xs then backward_return fn xs a ! Suc i else a) (xs ! i)"
proof (induction xs arbitrary: i)
  case Nil
  then show ?case by simp
next
  case (Cons x xs)
  show ?case
  proof (cases i)
    case 0
    then show ?thesis
      by (cases "backward_return fn xs a"; cases xs) (simp_all add: Let_def)
  next
    case (Suc j)
    then show ?thesis using Cons by (simp add: Let_def)
  qed
qed

text \<open>
  C8. For rewards \<open>r\<^sub>0 \<dots> r\<^sub>n\<^sub>-\<^sub>1\<close> and terminal flags \<open>t\<^sub>0 \<dots> t\<^sub>n\<^sub>-\<^sub>1\<close> the function returns a
  sequence \<open>R\<close> of length \<open>n\<close> with \<open>R\<^sub>i = r\<^sub>i\<close> where \<open>t\<^sub>i\<close> holds and
  \<open>R\<^sub>i = r\<^sub>i + d * R\<^sub>i\<^sub>+\<^sub>1\<close> elsewhere, \<open>R\<^sub>n\<close> being \<open>final_reward\<close>; so at a terminal flag
  the entry is the reward alone, whatever comes later. The only law of arithmetic used is
  that the multiplication commutes (the code multiplies by the discount on the right).
\<close>

theorem tf_discounted_cumulative_reward_recurrence:
  fixes reward :: "'a::{plus,ab_semigroup_mult} list"
  assumes "length reward = length terminal"
  shows "\<exists>R. tf_discounted_cumulative_reward reward terminal discount final_reward = Inr R
      \<and> length R = length reward
      \<and> (\<forall>i < length reward.
           R ! i = (if terminal ! i then reward ! i
                    else reward ! i +
                      discount * (if Suc i < length reward then R ! Suc i else final_reward)))"
proof -
  let ?R = "backward_return (fn_scan discount) (zip reward terminal) final_reward"
  have "tf_discounted_cumulative_reward reward terminal discount final_reward = Inr ?R"
    using assms by (simp add: tf_discounted_cumulative_reward_def zip_rev rev_tf_scan_rev)
  moreover have "length ?R = length reward"
    using assms by (simp add: length_backward_return)
  moreover have "\<forall>i < length reward.
      ?R ! i = (if terminal ! i then reward ! i
                else reward ! i +
                  discount * (if Suc i < length reward then ?R ! Suc i else final_reward))"
    using assms by (auto simp: backward_return_nth fn_scan_def mult.commute)
  ultimately show ?thesis by blast
qed

theorem tf_discounted_cumulative_reward_recurrence_witness:
  "tf_discounted_cumulative_reward [1, 2, 3 :: int] [False, True, False] 2 10 = Inr [5, 2, 23]"
proof -
  obtain R where R: "tf_discounted_cumulative_reward [1, 2, 3 :: int] [False, True, False] 2 10 = Inr R"
    using tf_discounted_cumulative_reward_recurrence
      [of "[1, 2, 3 :: int]" "[False, True, False]" 2 10]
    by auto
  then show ?thesis
    by (simp add: tf_discounted_cumulative_reward_def fn_scan_def)
qed

subsection \<open>TrustRegionPolicyOptimization.__init__\<close>

text \<open>
  C3. Whatever the arguments, the keyword arguments computed by the constructor hold, under
  \<open>optimizer\<close>, the \<open>optimized_step\<close> specification (10 line-search iterations, accept
  ratio 0.9, mode \<open>exponential\<close>, parameter 0.5) around the \<open>natural_gradient\<close>
  specification (the given learning rate, 10 conjugate-gradient iterations, damping 1e-3),
  and under \<open>objective\<close> the ratio-based \<open>policy_gradient\<close> specification whose clipping
  value is the argument \<open>likelihood_ratio_clipping\<close>; and the constructor hands exactly
  these keyword arguments to the parent's constructor, unless a critic network comes
  without a critic optimizer.
\<close>

theorem trpo_optimizer_specification:
  "map_of (trpo_kwargs a) ''optimizer'' =
     Some (PDict [(''type'', PStr ''optimized_step''),
       (''optimizer'', PDict [(''type'', PStr ''natural_gradient''),
          (''learning_rate'', trpo_learning_rate a),
          (''cg_max_iterations'', PInt 10), (''cg_damping'', PFloat (1 / 1000))]),
       (''ls_max_iterations'', PInt 10), (''ls_accept_ratio'', PFloat (9 / 10)),
       (''ls_mode'', PStr ''exponential''), (''ls_parameter'', PFloat (1 / 2))])
   \<and> map_of (trpo_kwargs a) ''objective'' =
     Some (PDict [(''type'', PStr ''policy_gradient''), (''ratio_based'', PBool True),
       (''clipping_value'', trpo_likelihood_ratio_clipping a)])
   \<and> (trpo_critic_network a = PNone \<or> trpo_critic_optimizer a \<noteq> PNone \<longrightarrow>
        trpo_init PolicyAgent_init a = PolicyAgent_init (trpo_kwargs a))"
  by (simp add: trpo_kwargs_def trpo_init_def)

theorem trpo_optimizer_specification_witness:
  "map_of (trpo_kwargs (trpo_defaults (PStr ''s'') (PStr ''a'') 100)) ''optimizer'' =
     Some (PDict [(''type'', PStr ''optimized_step''),
       (''optimizer'', PDict [(''type'', PStr ''natural_gradient''),
          (''learning_rate'', PFloat (1 / 1000)),
          (''cg_max_iterations'', PInt 10), (''cg_damping'', PFloat (1 / 1000))]),
       (''ls_max_iterations'', PInt 10), (''ls_accept_ratio'', PFloat (9 / 10)),
       (''ls_mode'', PStr ''exponential''), (''ls_parameter'', PFloat (1 / 2))])
   \<and> trpo_init Inr (trpo_defaults (PStr ''s'') (PStr ''a'') 100) =
       (Inr (trpo_kwargs (trpo_defaults (PStr ''s'') (PStr ''a'') 100))
          :: error + (string \<times> pyval) list)"
  using trpo_optimizer_specification
    [of "trpo_defaults (PStr ''s'') (PStr ''a'') 100"
        "Inr :: (string \<times> pyval) list \<Rightarrow> error + (string \<times> pyval) list"]
  by (simp add: trpo_defaults_def)

subsection \<open>Distribution.__init__\<close>

text \<open>
  C4. With an input specification whose type is not \<open>float\<close> the constructor raises at its
  first statement: the parent's constructor is never run, so the state is the one the call
  started from. With an input specification of type \<open>float\<close> the construction goes on: the
  parent's constructor runs on the summary labels, the regularization 0.0 and the name,
  and when it succeeds the distribution holds the three given specifications.
\<close>

theorem Distribution_init_requires_float:
  "(spec_type sp \<noteq> ''float'' \<longrightarrow>
      Distribution_init Module_init summary_labels name action_spec (Some sp) parameters_spec w
        = (Inl AssertionError, w))
   \<and> (spec_type sp = ''float'' \<longrightarrow>
      Distribution_init Module_init summary_labels name action_spec (Some sp) parameters_spec w
        = (case Module_init summary_labels (PFloat 0) name w of
             (Inl e, w') \<Rightarrow> (Inl e, w')
           | (Inr m, w') \<Rightarrow>
               (Inr \<lparr> dist_module = m, dist_action_spec = action_spec,
                      dist_input_spec = Some sp, dist_parameters_spec = parameters_spec \<rparr>, w')))"
  by (simp add: Distribution_init_def)

theorem Distribution_init_requires_float_witness:
  "Distribution_init (\<lambda>summary_labels l2 name w. (Inr name, Suc w)) PNone (PStr ''d'') None
       (Some \<lparr> spec_type = ''int'', spec_shape = [], spec_min_value = None,
               spec_max_value = None, spec_num_values = Some 3 \<rparr>) () (0 :: nat)
     = (Inl AssertionError, 0)
   \<and> Distribution_init (\<lambda>summary_labels l2 name w. (Inr name, Suc w)) PNone (PStr ''d'') None
       (Some \<lparr> spec_type = ''float'', spec_shape = [4], spec_min_value = None,
               spec_max_value = None, spec_num_values = None \<rparr>) () (0 :: nat)
     = (Inr \<lparr> dist_module = PStr ''d'', dist_action_spec = None,
              dist_input_spec = Some \<lparr> spec_type = ''float'', spec_shape = [4],
                spec_min_value = None, spec_max_value = None, spec_num_values = None \<rparr>,
              dist_parameters_spec = () \<rparr>, 1)"
  using Distribution_init_requires_float
    [of "\<lparr> spec_type = ''int'', spec_shape = [], spec_min_value = None,
           spec_max_value = None, spec_num_values = Some 3 \<rparr>"
        "\<lambda>summary_labels l2 name w. (Inr name, Suc w)" PNone "PStr ''d''" None "()" "0 :: nat"]
    Distribution_init_requires_float
    [of "\<lparr> spec_type = ''float'', spec_shape = [4], spec_min_value = None,
           spec_max_value = None, spec_num_values = None \<rparr>"
        "\<lambda>summary_labels l2 name w. (Inr name, Suc w)" PNone "PStr ''d''" None "()" "0 :: nat"]
  by simp

subsection \<open>Capability methods of the Distribution base class\<close>

text \<open>
  C5. A capability that the variant does not define itself raises \<open>NotImplementedError\<close>
  when it is invoked, whatever the arguments. A handler for \<open>NotImplementedError\<close> catches
  this exception and no exception of another class, so the caller can tell it from a
  failed computation (an arithmetic error, a plain run-time error, a failed tensor
  operation).
\<close>

theorem Distribution_capability_not_supported:
  assumes "overrides c = None"
  shows "invoke overrides c args = Inl NotImplementedError
       \<and> caught_by NotImplementedError NotImplementedError
       \<and> (\<forall>e. e \<noteq> NotImplementedError \<longrightarrow> \<not> caught_by e NotImplementedError)"
proof -
  have "Distribution_method c args = Inl NotImplementedError"
    by (cases c) simp_all
  moreover have "\<forall>e. e \<noteq> NotImplementedError \<longrightarrow> \<not> caught_by e NotImplementedError"
  proof (intro allI impI)
    fix e :: error
    assume "e \<noteq> NotImplementedError"
    then show "\<not> caught_by e NotImplementedError"
      by (cases e) (simp_all add: caught_by_def)
  qed
  ultimately show ?thesis
    using assms by (simp add: invoke_def caught_by_def)
qed

theorem Distribution_capability_not_supported_witness:
  "(invoke (\<lambda>c. if c = Sample then Some (\<lambda>args. Inr (sum_list args)) else None)
      Entropy [1, 2 :: int] :: error + int) = Inl NotImplementedError
   \<and> \<not> caught_by ZeroDivisionError NotImplementedError
   \<and> \<not> caught_by RuntimeError NotImplementedError"
  using Distribution_capability_not_supported
    [of "\<lambda>c. if c = Sample then Some (\<lambda>args. Inr (sum_list args)) else None" Entropy
        "[1, 2 :: int]"]
  by simp

subsection \<open>InternalRnn.__init__\<close>

text \<open>
  C6. With a cell that is neither \<open>gru\<close> nor \<open>lstm\<close> the constructor raises: the error of
  the parent's constructor when that fails, and otherwise the value error that names the
  argument \<open>cell\<close>, its value and the hint \<open>not in {gru,lstm}\<close>. With the cell \<open>gru\<close>
  (\<open>lstm\<close>) it returns the layer holding the Keras GRU (LSTM) cell built for the layer's
  size, whenever the parent's constructor and the Keras cell constructor succeed.
\<close>

theorem InternalRnn_init_cell:
  "(cell \<noteq> ''gru'' \<and> cell \<noteq> ''lstm'' \<longrightarrow>
      (\<exists>e. InternalRnn_init super_init size_of GRUCell LSTMCell cell args kwargs = Inl e)
      \<and> (\<forall>self. super_init args = Inr self \<longrightarrow>
           InternalRnn_init super_init size_of GRUCell LSTMCell cell args kwargs
             = Inl (TensorforceError_value ''Rnn'' ''cell'' cell ''not in {gru,lstm}'')))
   \<and> (\<forall>self c. cell = ''gru'' \<and> super_init args = Inr self
          \<and> GRUCell (size_of self) kwargs = Inr c \<longrightarrow>
        InternalRnn_init super_init size_of GRUCell LSTMCell cell args kwargs
          = Inr \<lparr> rnn_base = self, rnn_cell_type = ''gru'', rnn_cell = c \<rparr>)
   \<and> (\<forall>self c. cell = ''lstm'' \<and> super_init args = Inr self
          \<and> LSTMCell (size_of self) kwargs = Inr c \<longrightarrow>
        InternalRnn_init super_init size_of GRUCell LSTMCell cell args kwargs
          = Inr \<lparr> rnn_base = self, rnn_cell_type = ''lstm'', rnn_cell = c \<rparr>)"
  by (auto simp: InternalRnn_init_def split: sum.splits)

theorem InternalRnn_init_cell_witness:
  "InternalRnn_init (\<lambda>size. Inr size) (\<lambda>self. self)
      (\<lambda>units kw. Inr (''GRUCell'', units)) (\<lambda>units kw. Inr (''LSTMCell'', units))
      ''rnn'' (8 :: int) ()
     = Inl (TensorforceError_value ''Rnn'' ''cell'' ''rnn'' ''not in {gru,lstm}'')
   \<and> InternalRnn_init (\<lambda>size. Inr size) (\<lambda>self. self)
      (\<lambda>units kw. Inr (''GRUCell'', units)) (\<lambda>units kw. Inr (''LSTMCell'', units))
      ''gru'' (8 :: int) ()
     = Inr \<lparr> rnn_base = 8, rnn_cell_type = ''gru'', rnn_cell = (''GRUCell'', 8) \<rparr>
   \<and> InternalRnn_init (\<lambda>size. Inr size) (\<lambda>self. self)
      (\<lambda>units kw. Inr (''GRUCell'', units)) (\<lambda>units kw. Inr (''LSTMCell'', units))
      ''lstm'' (8 :: int) ()
     = Inr \<lparr> rnn_base = 8, rnn_cell_type = ''lstm'', rnn_cell = (''LSTMCell'', 8) \<rparr>"
  using InternalRnn_init_cell
    [of "''rnn''" "\<lambda>size. Inr size" "\<lambda>self. self" "\<lambda>units kw. Inr (''GRUCell'', units)"
        "\<lambda>units kw. Inr (''LSTMCell'', units)" "8 :: int" "()"]
    InternalRnn_init_cell
    [of "''gru''" "\<lambda>size. Inr size" "\<lambda>self. self" "\<lambda>units kw. Inr (''GRUCell'', units)"
        "\<lambda>units kw. Inr (''LSTMCell'', units)" "8 :: int" "()"]
    InternalRnn_init_cell
    [of "''lstm''" "\<lambda>size. Inr size" "\<lambda>self. self" "\<lambda>units kw. Inr (''GRUCell'', units)"
        "\<lambda>units kw. Inr (''LSTMCell'', units)" "8 :: int" "()"]
  by simp

subsection \<open>Model.tf_loss\<close>

text \<open>
  C7. For a batch that is not empty the loss is the mean of the per-instance losses over
  the batch plus the sum of all regularization losses; when there are none it is the
  batch mean alone.
\<close>

theorem tf_loss_mean:
  assumes "fn_loss_per_instance states internals actions terminal reward = lpi"
    and "lpi \<noteq> []"
    and "fn_regularization_losses states internals = losses"
  shows "tf_loss fn_loss_per_instance fn_regularization_losses states internals actions terminal reward
           = Some (sum_list lpi / real (length lpi) + sum_list (map snd losses))
       \<and> (losses = [] \<longrightarrow>
           tf_loss fn_loss_per_instance fn_regularization_losses states internals actions terminal reward
             = Some (sum_list lpi / real (length lpi)))"
  using assms by (auto simp: tf_loss_def reduce_mean_def add_n_def Let_def)

theorem tf_loss_mean_witness:
  "tf_loss (\<lambda>s n a t r. map (\<lambda>x. 2 * x) r) (\<lambda>s n. [(''l2'', 1 / 2), (''entropy'', 1 / 4)])
     () () () [False, True] [1, 3] = Some (19 / 4)"
  using tf_loss_mean [of "\<lambda>s n a t r. map (\<lambda>x. 2 * x) r" "()" "()" "()" "[False, True]" "[1, 3]"
      "[2, 6]" "\<lambda>s n. [(''l2'', 1 / 2), (''entropy'', 1 / 4)]" "[(''l2'', 1 / 2), (''entropy'', 1 / 4)]"]
  by simp

subsection \<open>Model.get_reward\<close>

text \<open>
  C9. With reward normalization the result is, entry by entry, the reward minus the batch
  mean, divided by the larger of the batch variance and epsilon: by the variance, not
  by its square root. Without normalization the rewards come back unchanged. The batch
  is not empty and epsilon is positive, so the divisor is positive.
\<close>

theorem get_reward_normalization:
  assumes "reward \<noteq> []" and "0 < epsilon"
  shows "get_reward True epsilon reward =
           map (\<lambda>r. (r - sum_list reward / real (length reward)) /
                 max (sum_list (map (\<lambda>v. (v - sum_list reward / real (length reward))\<^sup>2) reward)
                        / real (length reward)) epsilon) reward
       \<and> get_reward False epsilon reward = reward"
  using assms by (simp add: get_reward_def moments_def reduce_mean_def power2_eq_square)

theorem get_reward_normalization_witness:
  "get_reward True (1 / 1000000) [0, 4] = [- 1 / 2, 1 / 2]
   \<and> get_reward True (1 / 1000000) [0, 4] \<noteq> map (\<lambda>r. (r - 2) / sqrt 4) [0, 4]"
  using get_reward_normalization [of "[0, 4]" "1 / 1000000"]
  by (simp add: real_sqrt_abs [of 2, simplified])

subsection \<open>ConstantModel.core_act\<close>






end
